theory Spec2Isabelle
  imports Main
begin

section \<open>Exceptions\<close>

text \<open>
  Python exceptions are values. \<open>except Exception\<close> catches every class derived from
  \<open>Exception\<close>; a class derived from \<open>BaseException\<close> only (\<open>KeyboardInterrupt\<close>,
  \<open>SystemExit\<close>) passes through it. \<open>ResponseError\<close> and \<open>ConnectionError\<close> are the
  errors of the Redis client, both derived from \<open>Exception\<close>.
\<close>

datatype exn =
    AttributeError
  | ValueError
  | ResponseError
  | ConnectionError
  | UserException string
  | BaseOnly string

fun is_Exception :: "exn \<Rightarrow> bool" where
  "is_Exception (BaseOnly _) = False"
| "is_Exception _ = True"

section \<open>cache_manager.py: key construction\<close>

text \<open>
  What \<open>CacheManager.key\<close> reads from the function object \<open>f\<close>: its \<open>__name__\<close>, the
  names \<open>inspect.getargspec(f).args\<close> of its declared positional parameters, and, when
  \<open>inspect.ismethod(f)\<close> holds, \<open>f.im_self\<close>, which is either a class (class method) or an
  instance (instance method). A parameter list \<open>*args\<close> declares no named positional
  parameter: its \<open>getargspec(f).args\<close> is empty.
\<close>

datatype im_self =
    IsClass string       \<comment> \<open>\<open>f.im_self\<close> is a class; its \<open>__name__\<close>\<close>
  | IsInstance string    \<comment> \<open>\<open>f.im_self\<close> is an instance; the \<open>__name__\<close> of its \<open>__class__\<close>\<close>

record func_info =
  f_name :: string
  f_args :: "string list"
  f_im_self :: "im_self option"

text \<open>Python's \<open>sep.join(parts)\<close>.\<close>

fun join :: "string \<Rightarrow> string list \<Rightarrow> string" where
  "join sep [] = []"
| "join sep [x] = x"
| "join sep (x # y # ys) = x @ sep @ join sep (y # ys)"

text \<open>
  The loop \<open>for arg in args[idx:]: argparts.append(unicode(arg))\<close>; \<open>unicode_of\<close> is
  Python's \<open>unicode\<close> on the argument values.
\<close>

fun append_args :: "('a \<Rightarrow> string) \<Rightarrow> string list \<Rightarrow> 'a list \<Rightarrow> string list" where
  "append_args unicode_of argparts [] = argparts"
| "append_args unicode_of argparts (arg # rest) =
     append_args unicode_of (argparts @ [unicode_of arg]) rest"

definition name_parts :: "func_info \<Rightarrow> string list" where
  "name_parts f =
     (let nameparts = [f_name f] in
      case f_im_self f of
        None \<Rightarrow> nameparts
      | Some (IsClass c) \<Rightarrow> [c] @ nameparts
      | Some (IsInstance c) \<Rightarrow> [c] @ nameparts)"

definition arg_index :: "string list \<Rightarrow> nat" where
  "arg_index fargs = (if hd fargs \<in> {''cls'', ''self''} then 1 else 0)"

definition key :: "('a \<Rightarrow> string) \<Rightarrow> string \<Rightarrow> func_info \<Rightarrow> 'a list \<Rightarrow> string" where
  "key unicode_of key_base f args =
     (let argparts = [key_base, join ''.'' (name_parts f)];
          argparts' =
            (if args \<noteq> [] \<and> length (f_args f) > 0
             then append_args unicode_of argparts (drop (arg_index (f_args f)) args)
             else argparts)
      in join '':'' argparts')"

text \<open>
  \<open>skip_count\<close> as the specification words it: 1 if the declared first parameter is a
  receiver name, 0 otherwise (also when there is no declared first parameter).
\<close>

definition skip_count :: "func_info \<Rightarrow> nat" where
  "skip_count f =
     (case f_args f of
        [] \<Rightarrow> 0
      | p # _ \<Rightarrow> if p = ''cls'' \<or> p = ''self'' then 1 else 0)"

definition spec_key :: "('a \<Rightarrow> string) \<Rightarrow> string \<Rightarrow> func_info \<Rightarrow> 'a list \<Rightarrow> string" where
  "spec_key unicode_of key_base f args =
     join '':'' ([key_base, join ''.'' (name_parts f)] @ map unicode_of (drop (skip_count f) args))"

text \<open>
  Some Python values and their \<open>unicode\<close> forms, for concrete calls: \<open>unicode(None)\<close> is
  \<open>u'None'\<close>, \<open>unicode(True)\<close> is \<open>u'True'\<close>, and a string is its own form.
\<close>

datatype pyval = PyNone | PyBool bool | PyStr string

fun py_unicode :: "pyval \<Rightarrow> string" where
  "py_unicode PyNone = ''None''"
| "py_unicode (PyBool b) = (if b then ''True'' else ''False'')"
| "py_unicode (PyStr s) = s"

section \<open>The backing store\<close>

text \<open>
  The store is outside the repository; the code reaches it through a client object. The
  model keeps what the operations used here depend on: an association from keys to data
  with the time to live given at the write, and whether the server can be reached
  (every operation on an unreachable store raises \<open>ConnectionError\<close> and changes
  nothing). There is no clock in the model: a time to live is recorded, never acted on.
\<close>

record 'd store =
  entries :: "(string \<times> 'd \<times> nat option) list"
  online :: bool

definition lookup :: "'d store \<Rightarrow> string \<Rightarrow> ('d \<times> nat option) option" where
  "lookup st k = map_of (entries st) k"

definition without :: "string list \<Rightarrow> (string \<times> 'b) list \<Rightarrow> (string \<times> 'b) list" where
  "without ks es = filter (\<lambda>e. fst e \<notin> set ks) es"

text \<open>Glob patterns of \<open>KEYS\<close> and \<open>delete_pattern\<close>: \<open>*\<close> stands for any run of characters.\<close>

fun glob :: "string \<Rightarrow> string \<Rightarrow> bool" where
  "glob [] [] = True"
| "glob [] (c # cs) = False"
| "glob (p # ps) [] = (p = CHR ''*'' \<and> glob ps [])"
| "glob (p # ps) (c # cs) =
     (if p = CHR ''*'' then glob ps (c # cs) \<or> glob (p # ps) cs
      else p = c \<and> glob ps cs)"

definition store_get :: "string \<Rightarrow> 'd store \<Rightarrow> exn + 'd option" where
  "store_get k st =
     (if online st then Inr (map_option fst (lookup st k)) else Inl ConnectionError)"

definition store_set :: "string \<Rightarrow> 'd \<Rightarrow> nat option \<Rightarrow> 'd store \<Rightarrow> exn + 'd store" where
  "store_set k d t st =
     (if online st then Inr (st\<lparr>entries := (k, d, t) # without [k] (entries st)\<rparr>)
      else Inl ConnectionError)"

definition store_expire :: "string \<Rightarrow> nat \<Rightarrow> 'd store \<Rightarrow> exn + 'd store" where
  "store_expire k t st =
     (if online st
      then Inr (st\<lparr>entries := map (\<lambda>(k', d, t'). if k' = k then (k', d, Some t) else (k', d, t'))
                                   (entries st)\<rparr>)
      else Inl ConnectionError)"

definition store_delete :: "string list \<Rightarrow> 'd store \<Rightarrow> exn + (nat \<times> 'd store)" where
  "store_delete ks st =
     (if online st
      then Inr (length (filter (\<lambda>e. fst e \<in> set ks) (entries st)),
                st\<lparr>entries := without ks (entries st)\<rparr>)
      else Inl ConnectionError)"

definition store_keys :: "string \<Rightarrow> 'd store \<Rightarrow> exn + string list" where
  "store_keys pattern st =
     (if online st then Inr (filter (glob pattern) (map fst (entries st)))
      else Inl ConnectionError)"

text \<open>
  \<open>redis.StrictRedis.delete(*names)\<close> sends \<open>DEL\<close> with the names given; the server
  rejects a \<open>DEL\<close> without a key and the client raises \<open>ResponseError\<close>.
\<close>

definition redis_delete :: "string list \<Rightarrow> 'd store \<Rightarrow> exn + (nat \<times> 'd store)" where
  "redis_delete names st =
     (if \<not> online st then Inl ConnectionError
      else if names = [] then Inl ResponseError
      else store_delete names st)"

section \<open>Process state and calls\<close>

text \<open>
  What a run changes: the store, the application's own state \<open>app\<close> (whatever the
  wrapped functions read and write), and \<open>trace\<close>, the instrumentation of the model: one
  event for each store operation issued and each invocation of a wrapped function, in
  the order they happen. An exception leaves the state as it was when it was raised,
  so every operation returns its outcome together with the state.
\<close>

datatype 'a event =
    Load string
  | Save string string
  | Expire string nat
  | Invoke string "'a list" "(string \<times> 'a) list"
  | SetKey string
  | DeleteKey string
  | Keys string
  | DeleteKeys "string list"
  | DeletePattern string

record ('a, 'd, 'u) state =
  store :: "'d store"
  app :: 'u
  trace :: "'a event list"

definition emit :: "'a event \<Rightarrow> ('a, 'd, 'u) state \<Rightarrow> ('a, 'd, 'u) state" where
  "emit ev s = s\<lparr>trace := trace s @ [ev]\<rparr>"

section \<open>cache_manager.py: the decorator\<close>

text \<open>
  A wrapped function of \<open>cache_manager.py\<close>: the data \<open>key\<close> reads from it, and its
  body, run on the positional and keyword arguments. It is application code: it
  changes the application state and raises or returns a value, \<open>None\<close> being Python's
  \<open>None\<close>. It reaches the store only through the manager.
\<close>

record ('a, 'v, 'u) pyfunc =
  info :: func_info
  body :: "'a list \<Rightarrow> (string \<times> 'a) list \<Rightarrow> 'u \<Rightarrow> (exn + 'v option) \<times> 'u"

text \<open>
  A \<open>CacheManager\<close> instance. \<open>cm_connection\<close> says that \<open>_connection\<close> is set;
  \<open>cm_current\<close> that \<open>get_current_connection()\<close> of the module \<open>connection\<close> (not part
  of the sources at hand) returns a connection. Both stand for the one store of the
  state. \<open>after_load\<close> and \<open>before_save\<close> are the overridable hooks (\<open>cPickle.loads\<close> and
  \<open>cPickle.dumps\<close> by default), which may raise.
\<close>

record ('a, 'v) cache_manager =
  cm_key_base :: string
  cm_ttl :: "nat option"
  cm_connection :: bool
  cm_current :: bool
  after_load :: "string \<Rightarrow> 'a list \<Rightarrow> (string \<times> 'a) list \<Rightarrow> exn + 'v option"
  before_save :: "'v \<Rightarrow> 'a list \<Rightarrow> (string \<times> 'a) list \<Rightarrow> exn + string"

definition connection :: "('a, 'v) cache_manager \<Rightarrow> bool" where
  "connection m = (if cm_connection m then True else cm_current m)"

definition load :: "string \<Rightarrow> ('a, string, 'u) state \<Rightarrow> (exn + string option) \<times> ('a, string, 'u) state" where
  "load k s = (store_get k (store s), emit (Load k) s)"

definition save :: "string \<Rightarrow> string \<Rightarrow> ('a, string, 'u) state \<Rightarrow> (exn + unit) \<times> ('a, string, 'u) state" where
  "save k data s =
     (case store_set k data None (store s) of
        Inl e \<Rightarrow> (Inl e, emit (Save k data) s)
      | Inr st \<Rightarrow> (Inr (), (emit (Save k data) s)\<lparr>store := st\<rparr>))"

definition expire :: "string \<Rightarrow> nat \<Rightarrow> ('a, string, 'u) state \<Rightarrow> (exn + unit) \<times> ('a, string, 'u) state" where
  "expire k t s =
     (case store_expire k t (store s) of
        Inl e \<Rightarrow> (Inl e, emit (Expire k t) s)
      | Inr st \<Rightarrow> (Inr (), (emit (Expire k t) s)\<lparr>store := st\<rparr>))"

definition call :: "('a, 'v, 'u) pyfunc \<Rightarrow> 'a list \<Rightarrow> (string \<times> 'a) list \<Rightarrow> ('a, 'd, 'u) state
    \<Rightarrow> (exn + 'v option) \<times> ('a, 'd, 'u) state" where
  "call f args kwargs s =
     (case body f args kwargs (app s) of
        (r, u) \<Rightarrow> (r, (emit (Invoke (f_name (info f)) args kwargs) s)\<lparr>app := u\<rparr>))"

text \<open>\<open>data = None; if self.connection: data = self.load(key, ...)\<close>\<close>

definition lookup_data :: "('a, 'v) cache_manager \<Rightarrow> string \<Rightarrow> ('a, string, 'u) state
    \<Rightarrow> (exn + string option) \<times> ('a, string, 'u) state" where
  "lookup_data m k s = (if connection m then load k s else (Inr None, s))"

text \<open>
  The part of the wrapper after \<open>data = f(*args, **kwargs)\<close> returned \<open>data\<close>:
  \<open>if data is not None\<close>, the hook, the save and, with \<open>if ttl\<close>, the expire.
\<close>

definition store_result :: "('a, 'v) cache_manager \<Rightarrow> nat option \<Rightarrow> string \<Rightarrow> 'v option
    \<Rightarrow> 'a list \<Rightarrow> (string \<times> 'a) list \<Rightarrow> ('a, string, 'u) state
    \<Rightarrow> (exn + 'v option) \<times> ('a, string, 'u) state" where
  "store_result m ttl k data args kwargs s =
     (case data of
        None \<Rightarrow> (Inr None, s)
      | Some v \<Rightarrow>
          (case before_save m v args kwargs of
             Inl e \<Rightarrow> (Inl e, s)
           | Inr cached \<Rightarrow>
               if connection m then
                 (case save k cached s of
                    (Inl e, s1) \<Rightarrow> (Inl e, s1)
                  | (Inr _, s1) \<Rightarrow>
                      (case ttl of
                         None \<Rightarrow> (Inr (Some v), s1)
                       | Some t \<Rightarrow>
                           if t \<noteq> 0 then
                             (case expire k t s1 of
                                (Inl e, s2) \<Rightarrow> (Inl e, s2)
                              | (Inr _, s2) \<Rightarrow> (Inr (Some v), s2))
                           else (Inr (Some v), s1)))
               else (Inr (Some v), s)))"

text \<open>The \<open>else\<close> branch of \<open>if data:\<close>: the function is invoked and its result stored.\<close>

definition miss_path :: "('a, 'v) cache_manager \<Rightarrow> nat option \<Rightarrow> ('a, 'v, 'u) pyfunc \<Rightarrow> string
    \<Rightarrow> 'a list \<Rightarrow> (string \<times> 'a) list \<Rightarrow> ('a, string, 'u) state
    \<Rightarrow> (exn + 'v option) \<times> ('a, string, 'u) state" where
  "miss_path m ttl f k args kwargs s =
     (case call f args kwargs s of
        (Inl e, s1) \<Rightarrow> (Inl e, s1)
      | (Inr data, s1) \<Rightarrow> store_result m ttl k data args kwargs s1)"

text \<open>
  The body of \<open>wrapper\<close>, the same in \<open>CacheManager.cache\<close> and
  \<open>DefaultCacheManager.cache\<close> but for the time to live it applies. \<open>if data:\<close> on what
  \<open>GET\<close> returned is false for \<open>None\<close> and for the empty string.
\<close>

definition wrapper :: "('a \<Rightarrow> string) \<Rightarrow> ('a, 'v) cache_manager \<Rightarrow> nat option \<Rightarrow> ('a, 'v, 'u) pyfunc
    \<Rightarrow> 'a list \<Rightarrow> (string \<times> 'a) list \<Rightarrow> ('a, string, 'u) state
    \<Rightarrow> (exn + 'v option) \<times> ('a, string, 'u) state" where
  "wrapper unicode_of m ttl f args kwargs s =
     (let k = key unicode_of (cm_key_base m) (info f) args in
      case lookup_data m k s of
        (Inl e, s1) \<Rightarrow> (Inl e, s1)
      | (Inr None, s1) \<Rightarrow> miss_path m ttl f k args kwargs s1
      | (Inr (Some data), s1) \<Rightarrow>
          if data \<noteq> [] then (after_load m data args kwargs, s1)
          else miss_path m ttl f k args kwargs s1)"

text \<open>\<open>CacheManager.cache(f)\<close>, applied to a call's arguments.\<close>

definition cache :: "('a \<Rightarrow> string) \<Rightarrow> ('a, 'v) cache_manager \<Rightarrow> ('a, 'v, 'u) pyfunc
    \<Rightarrow> 'a list \<Rightarrow> (string \<times> 'a) list \<Rightarrow> ('a, string, 'u) state
    \<Rightarrow> (exn + 'v option) \<times> ('a, string, 'u) state" where
  "cache unicode_of m f = wrapper unicode_of m (cm_ttl m) f"

text \<open>
  \<open>DefaultCacheManager.cache\<close>; \<open>ttl_kw\<close> is the keyword argument \<open>ttl\<close> of the
  decoration, \<open>None\<close> when it is not given (\<open>kwargs.get('ttl', self._ttl)\<close>).
\<close>

definition default_cache :: "('a \<Rightarrow> string) \<Rightarrow> ('a, 'v) cache_manager \<Rightarrow> nat option option
    \<Rightarrow> ('a, 'v, 'u) pyfunc \<Rightarrow> 'a list \<Rightarrow> (string \<times> 'a) list \<Rightarrow> ('a, string, 'u) state
    \<Rightarrow> (exn + 'v option) \<times> ('a, string, 'u) state" where
  "default_cache unicode_of m ttl_kw f =
     wrapper unicode_of m (case ttl_kw of None \<Rightarrow> cm_ttl m | Some t \<Rightarrow> t) f"

text \<open>The invocations of the function named \<open>n\<close> among some events.\<close>

fun is_invoke :: "string \<Rightarrow> 'a event \<Rightarrow> bool" where
  "is_invoke n (Invoke n' _ _) = (n = n')"
| "is_invoke n _ = False"

definition invocations :: "string \<Rightarrow> 'a event list \<Rightarrow> nat" where
  "invocations n evs = length (filter (is_invoke n) evs)"


section \<open>Concrete managers, functions and states\<close>

text \<open>
  A manager bound to a connection whose hooks store string results as they are, a state
  with an empty, reachable store, and two functions that count their invocations in the
  application state: one returns \<open>None\<close>, one a string.
\<close>

definition echo_manager :: "(pyval, string) cache_manager" where
  "echo_manager =
     \<lparr>cm_key_base = ''cache'', cm_ttl = Some 60, cm_connection = True, cm_current = False,
      after_load = (\<lambda>data _ _. Inr (Some data)),
      before_save = (\<lambda>data _ _. Inr data)\<rparr>"

definition fresh :: "(pyval, 'd, nat) state" where
  "fresh = \<lparr>store = \<lparr>entries = [], online = True\<rparr>, app = 0, trace = []\<rparr>"

definition find_nothing :: "(pyval, string, nat) pyfunc" where
  "find_nothing =
     \<lparr>info = \<lparr>f_name = ''find'', f_args = [''x''], f_im_self = None\<rparr>,
      body = (\<lambda>_ _ n. (Inr None, Suc n))\<rparr>"

definition find_title :: "(pyval, string, nat) pyfunc" where
  "find_title =
     \<lparr>info = \<lparr>f_name = ''title'', f_args = [''x''], f_im_self = None\<rparr>,
      body = (\<lambda>_ _ n. (Inr (Some ''Dune''), Suc n))\<rparr>"

section \<open>django_cache_manager.py: call records and managers\<close>

text \<open>
  A function held in a call record: its \<open>__name__\<close> and its body. The functions
  registered here are expected to use the cache themselves (a view repopulates it when
  called), so the body runs on the store and the application state.
\<close>

record ('a, 'v, 'u) dj_func =
  fn_name :: string
  fn_body :: "'a list \<Rightarrow> (string \<times> 'a) list \<Rightarrow> 'v store \<times> 'u \<Rightarrow> (exn + 'v) \<times> ('v store \<times> 'u)"

text \<open>The tuple \<open>(func, ignore_args, view, namespace, args, kwargs)\<close>.\<close>

record ('a, 'v, 'u) call_record =
  cr_func :: "('a, 'v, 'u) dj_func"
  cr_ignore_args :: bool
  cr_view :: bool
  cr_namespace :: string
  cr_args :: "'a list"
  cr_kwargs :: "(string \<times> 'a) list"

text \<open>What \<open>append\<close> may be handed: a tuple of six elements, or anything else.\<close>

datatype 'r pyobj = Tuple6 'r | NotTuple6

text \<open>
  The class of the \<open>cache\<close> object, which \<open>flush_app\<close> tests with
  \<open>isinstance(cache, redis.StrictRedis)\<close>.
\<close>

datatype client = StrictRedis | DjangoCache

text \<open>
  \<open>CacheManager(list)\<close>: the list itself and the attributes set by \<open>__init__\<close>.
\<close>

record ('a, 'v, 'u) manager =
  m_items :: "('a, 'v, 'u) call_record list"
  m_namespace :: string
  m_cache :: client
  m_app_name :: string

text \<open>
  The objects of the process: the \<open>__dict__\<close> of the \<open>CacheUpdateManager\<close>, as the list
  of its entries in iteration order, and the class attribute \<open>CacheManager.views\<close>.
\<close>

record ('a, 'v, 'u) process =
  managers :: "(string \<times> ('a, 'v, 'u) manager) list"
  views :: "('a, 'v, 'u) call_record list"

text \<open>
  What the module takes from elsewhere: \<open>cache_create_key\<close> of \<open>cache_utils.decorators\<close>
  (not part of the sources at hand), applied to a namespace, the \<open>ignore_args\<close> flag, a
  function name and the arguments; and \<open>timeout\<close>, the setting
  \<open>DEFAULT_CACHE_TIMEOUT\<close>.
\<close>

record 'a env =
  cache_create_key :: "string \<Rightarrow> bool \<Rightarrow> string \<Rightarrow> 'a list \<Rightarrow> (string \<times> 'a) list \<Rightarrow> string"
  timeout :: "nat option"

definition new_manager :: "string \<Rightarrow> client \<Rightarrow> string \<Rightarrow> ('a, 'v, 'u) manager" where
  "new_manager ns c app_nm = \<lparr>m_items = [], m_namespace = ns, m_cache = c, m_app_name = app_nm\<rparr>"

text \<open>
  \<open>CacheUpdateManager.__init__\<close>: one manager for each key, with the application name
  \<open>settings.CACHE_KEYS[key]\<close>; \<open>cache_keys\<close> is that setting.
\<close>

definition new_update_manager :: "string list \<Rightarrow> client \<Rightarrow> (string \<Rightarrow> string) \<Rightarrow> ('a, 'v, 'u) process" where
  "new_update_manager keys c cache_keys =
     \<lparr>managers = map (\<lambda>k. (k, new_manager k c (cache_keys k))) (remdups keys), views = []\<rparr>"

definition namespaces :: "('a, 'v, 'u) process \<Rightarrow> string list" where
  "namespaces p = map fst (managers p)"

definition get :: "('a, 'v, 'u) process \<Rightarrow> string \<Rightarrow> ('a, 'v, 'u) manager option" where
  "get p name = map_of (managers p) name"

text \<open>\<open>__setattr__\<close> and \<open>__delattr__\<close>: both raise, whatever the name.\<close>

definition setattr :: "('a, 'v, 'u) process \<Rightarrow> string \<Rightarrow> 'x \<Rightarrow> (exn + unit) \<times> ('a, 'v, 'u) process" where
  "setattr p name val = (Inl AttributeError, p)"

definition delattr :: "('a, 'v, 'u) process \<Rightarrow> string \<Rightarrow> (exn + unit) \<times> ('a, 'v, 'u) process" where
  "delattr p name = (Inl AttributeError, p)"

text \<open>
  \<open>CacheManager.append\<close>, on the manager registered under \<open>ns\<close>: a record flagged as a
  view also joins \<open>CacheManager.views\<close>.
\<close>

definition append_record :: "string \<Rightarrow> ('a, 'v, 'u) manager \<Rightarrow> ('a, 'v, 'u) call_record pyobj
    \<Rightarrow> ('a, 'v, 'u) process \<Rightarrow> (exn + unit) \<times> ('a, 'v, 'u) process" where
  "append_record ns self tup p =
     (case tup of
        Tuple6 r \<Rightarrow>
          (Inr (),
           p\<lparr>managers := map (\<lambda>(k, m). if k = ns then (k, self\<lparr>m_items := m_items self @ [r]\<rparr>) else (k, m))
                            (managers p),
             views := (if cr_view r then views p @ [r] else views p)\<rparr>)
      | NotTuple6 \<Rightarrow> (Inl ValueError, p))"

definition add_to_manager :: "('a, 'v, 'u) process \<Rightarrow> string \<Rightarrow> bool \<Rightarrow> bool \<Rightarrow> ('a, 'v, 'u) dj_func
    \<Rightarrow> 'a list \<Rightarrow> (string \<times> 'a) list \<Rightarrow> (exn + bool) \<times> ('a, 'v, 'u) process" where
  "add_to_manager p ns ignore_args view func args kwargs =
     (case get p ns of
        Some m \<Rightarrow>
          (case append_record ns m
                  (Tuple6 \<lparr>cr_func = func, cr_ignore_args = ignore_args, cr_view = view,
                           cr_namespace = ns, cr_args = args, cr_kwargs = kwargs\<rparr>) p of
             (Inl e, p') \<Rightarrow> (Inl e, p')
           | (Inr _, p') \<Rightarrow> (Inr True, p'))
      | None \<Rightarrow> (Inr False, p))"

section \<open>django_cache_manager.py: update and flush\<close>

definition dj_call :: "('a, 'v, 'u) dj_func \<Rightarrow> 'a list \<Rightarrow> (string \<times> 'a) list \<Rightarrow> ('a, 'v, 'u) state
    \<Rightarrow> (exn + 'v) \<times> ('a, 'v, 'u) state" where
  "dj_call f args kwargs s =
     (case fn_body f args kwargs (store s, app s) of
        (r, (st, u)) \<Rightarrow> (r, (emit (Invoke (fn_name f) args kwargs) s)\<lparr>store := st, app := u\<rparr>))"

text \<open>\<open>cache.set(key, result, timeout)\<close> and \<open>cache.delete(key)\<close>.\<close>

definition cache_set :: "string \<Rightarrow> 'v \<Rightarrow> nat option \<Rightarrow> ('a, 'v, 'u) state \<Rightarrow> (exn + unit) \<times> ('a, 'v, 'u) state" where
  "cache_set k v t s =
     (case store_set k v t (store s) of
        Inl e \<Rightarrow> (Inl e, emit (SetKey k) s)
      | Inr st \<Rightarrow> (Inr (), (emit (SetKey k) s)\<lparr>store := st\<rparr>))"

definition cache_delete :: "string \<Rightarrow> ('a, 'v, 'u) state \<Rightarrow> (exn + nat) \<times> ('a, 'v, 'u) state" where
  "cache_delete k s =
     (case store_delete [k] (store s) of
        Inl e \<Rightarrow> (Inl e, emit (DeleteKey k) s)
      | Inr (n, st) \<Rightarrow> (Inr n, (emit (DeleteKey k) s)\<lparr>store := st\<rparr>))"

text \<open>\<open>cache.keys(pattern)\<close>, \<open>cache.delete(*keys)\<close> and \<open>cache.delete_pattern(pattern)\<close>.\<close>

definition cache_keys_matching :: "string \<Rightarrow> ('a, 'v, 'u) state \<Rightarrow> (exn + string list) \<times> ('a, 'v, 'u) state" where
  "cache_keys_matching pattern s = (store_keys pattern (store s), emit (Keys pattern) s)"

definition cache_delete_many :: "string list \<Rightarrow> ('a, 'v, 'u) state \<Rightarrow> (exn + nat) \<times> ('a, 'v, 'u) state" where
  "cache_delete_many ks s =
     (case redis_delete ks (store s) of
        Inl e \<Rightarrow> (Inl e, emit (DeleteKeys ks) s)
      | Inr (n, st) \<Rightarrow> (Inr n, (emit (DeleteKeys ks) s)\<lparr>store := st\<rparr>))"

definition cache_delete_pattern :: "string \<Rightarrow> ('a, 'v, 'u) state \<Rightarrow> (exn + nat) \<times> ('a, 'v, 'u) state" where
  "cache_delete_pattern pattern s =
     (case store_keys pattern (store s) of
        Inl e \<Rightarrow> (Inl e, emit (DeletePattern pattern) s)
      | Inr ks \<Rightarrow>
          (case store_delete ks (store s) of
             Inl e \<Rightarrow> (Inl e, emit (DeletePattern pattern) s)
           | Inr (n, st) \<Rightarrow> (Inr n, (emit (DeletePattern pattern) s)\<lparr>store := st\<rparr>)))"

definition flush_pattern :: "string \<Rightarrow> string" where
  "flush_pattern app_nm = ''*.'' @ app_nm @ ''.*''"

definition flush_app :: "string \<Rightarrow> client \<Rightarrow> ('a, 'v, 'u) state \<Rightarrow> (exn + nat) \<times> ('a, 'v, 'u) state" where
  "flush_app app_nm c s =
     (let pattern = flush_pattern app_nm in
      case c of
        StrictRedis \<Rightarrow>
          (case cache_keys_matching pattern s of
             (Inl e, s1) \<Rightarrow> (Inl e, s1)
           | (Inr keys, s1) \<Rightarrow> cache_delete_many keys s1)
      | DjangoCache \<Rightarrow> cache_delete_pattern pattern s)"

text \<open>
  The first loop of \<open>CacheManager.update\<close>, over the manager's own records, with
  \<open>num_updated\<close> as accumulator. \<open>except Exception\<close> skips the record; the \<open>set\<close> is
  outside the \<open>try\<close>.
\<close>

fun update_records :: "'a env \<Rightarrow> ('a, 'v, 'u) manager \<Rightarrow> ('a, 'v, 'u) call_record list \<Rightarrow> nat
    \<Rightarrow> ('a, 'v, 'u) state \<Rightarrow> (exn + nat) \<times> ('a, 'v, 'u) state" where
  "update_records env self [] num_updated s = (Inr num_updated, s)"
| "update_records env self (r # rs) num_updated s =
     (case dj_call (cr_func r) (cr_args r) (cr_kwargs r) s of
        (Inl e, s1) \<Rightarrow>
          if is_Exception e then update_records env self rs num_updated s1 else (Inl e, s1)
      | (Inr result, s1) \<Rightarrow>
          (case cache_set (cache_create_key env (m_namespace self) (cr_ignore_args r)
                             (fn_name (cr_func r)) (cr_args r) (cr_kwargs r))
                  result (timeout env) s1 of
             (Inl e, s2) \<Rightarrow> (Inl e, s2)
           | (Inr _, s2) \<Rightarrow> update_records env self rs (num_updated + 1) s2))"

text \<open>The key of a view record, made from the record's own namespace.\<close>

definition view_key :: "'a env \<Rightarrow> ('a, 'v, 'u) call_record \<Rightarrow> string" where
  "view_key env r =
     cache_create_key env (cr_namespace r) (cr_ignore_args r) (fn_name (cr_func r))
       (cr_args r) (cr_kwargs r)"

text \<open>The second loop, over \<open>CacheManager.views\<close>: no \<open>try\<close> around it.\<close>

fun update_views :: "'a env \<Rightarrow> ('a, 'v, 'u) call_record list \<Rightarrow> ('a, 'v, 'u) state
    \<Rightarrow> (exn + unit) \<times> ('a, 'v, 'u) state" where
  "update_views env [] s = (Inr (), s)"
| "update_views env (r # rs) s =
     (case cache_delete (view_key env r) s of
        (Inl e, s1) \<Rightarrow> (Inl e, s1)
      | (Inr _, s1) \<Rightarrow>
          (case dj_call (cr_func r) (cr_args r) (cr_kwargs r) s1 of
             (Inl e, s2) \<Rightarrow> (Inl e, s2)
           | (Inr _, s2) \<Rightarrow> update_views env rs s2))"

text \<open>
  \<open>CacheManager.update(self, update_manager)\<close>; \<open>vs\<close> is \<open>CacheManager.views\<close>. The
  update manager is used for its \<open>flush_app\<close> only.
\<close>

definition update :: "'a env \<Rightarrow> ('a, 'v, 'u) manager \<Rightarrow> ('a, 'v, 'u) call_record list
    \<Rightarrow> ('a, 'v, 'u) state \<Rightarrow> (exn + nat) \<times> ('a, 'v, 'u) state" where
  "update env self vs s =
     (case update_records env self (m_items self) 0 s of
        (Inl e, s1) \<Rightarrow> (Inl e, s1)
      | (Inr num_updated, s1) \<Rightarrow>
          (case flush_app (m_app_name self) (m_cache self) s1 of
             (Inl e, s2) \<Rightarrow> (Inl e, s2)
           | (Inr _, s2) \<Rightarrow>
               (case update_views env vs s2 of
                  (Inl e, s3) \<Rightarrow> (Inl e, s3)
                | (Inr _, s3) \<Rightarrow> (Inr num_updated, s3))))"

definition update_namespace :: "'a env \<Rightarrow> ('a, 'v, 'u) process \<Rightarrow> string \<Rightarrow> ('a, 'v, 'u) state
    \<Rightarrow> (exn + nat) \<times> ('a, 'v, 'u) state" where
  "update_namespace env p ns s =
     (case get p ns of
        Some m \<Rightarrow> update env m (views p) s
      | None \<Rightarrow> (Inl AttributeError, s))"

text \<open>The loop of \<open>update_all\<close>, with \<open>result\<close> as accumulator: no \<open>try\<close> around the call.\<close>

fun update_all_loop :: "'a env \<Rightarrow> ('a, 'v, 'u) process \<Rightarrow> string list \<Rightarrow> nat list
    \<Rightarrow> ('a, 'v, 'u) state \<Rightarrow> (exn + nat list) \<times> ('a, 'v, 'u) state" where
  "update_all_loop env p [] result s = (Inr result, s)"
| "update_all_loop env p (ns # rest) result s =
     (case update_namespace env p ns s of
        (Inl e, s1) \<Rightarrow> (Inl e, s1)
      | (Inr n, s1) \<Rightarrow> update_all_loop env p rest (result @ [n]) s1)"

definition update_all :: "'a env \<Rightarrow> ('a, 'v, 'u) process \<Rightarrow> ('a, 'v, 'u) state
    \<Rightarrow> (exn + nat list) \<times> ('a, 'v, 'u) state" where
  "update_all env p s = update_all_loop env p (namespaces p) [] s"

section \<open>Behaviour of registered functions\<close>

text \<open>
  What the statements below assume of a record's function when it is re-invoked with the
  record's arguments: that it returns a given value whatever the state, that it raises
  an exception derived from \<open>Exception\<close> whatever the state, that it leaves a reachable
  store reachable, that it leaves the entry under a given key as it found it.
\<close>

definition run :: "('a, 'v, 'u) call_record \<Rightarrow> 'v store \<times> 'u \<Rightarrow> (exn + 'v) \<times> ('v store \<times> 'u)" where
  "run r w = fn_body (cr_func r) (cr_args r) (cr_kwargs r) w"

definition always_returns :: "('a, 'v, 'u) call_record \<Rightarrow> 'v \<Rightarrow> bool" where
  "always_returns r v \<longleftrightarrow> (\<forall>w. fst (run r w) = Inr v)"

definition always_raises :: "('a, 'v, 'u) call_record \<Rightarrow> bool" where
  "always_raises r \<longleftrightarrow> (\<forall>w. \<exists>e. fst (run r w) = Inl e \<and> is_Exception e)"

definition keeps_online :: "('a, 'v, 'u) call_record \<Rightarrow> bool" where
  "keeps_online r \<longleftrightarrow> (\<forall>st u. online st \<longrightarrow> online (fst (snd (run r (st, u)))))"

definition leaves_key :: "('a, 'v, 'u) call_record \<Rightarrow> string \<Rightarrow> bool" where
  "leaves_key r k \<longleftrightarrow> (\<forall>st u. lookup (fst (snd (run r (st, u)))) k = lookup st k)"

text \<open>The key under which \<open>update\<close> stores the result of one of the manager's own records.\<close>

definition own_key :: "'a env \<Rightarrow> ('a, 'v, 'u) manager \<Rightarrow> ('a, 'v, 'u) call_record \<Rightarrow> string" where
  "own_key env self r =
     cache_create_key env (m_namespace self) (cr_ignore_args r) (fn_name (cr_func r))
       (cr_args r) (cr_kwargs r)"

text \<open>Events by kind.\<close>

definition invoke_of :: "('a, 'v, 'u) call_record \<Rightarrow> 'a event" where
  "invoke_of r = Invoke (fn_name (cr_func r)) (cr_args r) (cr_kwargs r)"

fun is_invocation :: "'a event \<Rightarrow> bool" where
  "is_invocation (Invoke _ _ _) = True"
| "is_invocation _ = False"

fun is_own_event :: "'a event \<Rightarrow> bool" where
  "is_own_event (Invoke _ _ _) = True"
| "is_own_event (SetKey _) = True"
| "is_own_event _ = False"

fun is_flush_event :: "'a event \<Rightarrow> bool" where
  "is_flush_event (Keys _) = True"
| "is_flush_event (DeleteKeys _) = True"
| "is_flush_event (DeletePattern _) = True"
| "is_flush_event _ = False"

definition view_events :: "'a env \<Rightarrow> ('a, 'v, 'u) call_record \<Rightarrow> 'a event list" where
  "view_events env r = [DeleteKey (view_key env r), invoke_of r]"

section \<open>Properties of key construction\<close>

lemma append_args_map:
  "append_args unicode_of argparts args = argparts @ map unicode_of args"
  by (induction args arbitrary: argparts) simp_all

lemma skip_count_arg_index:
  "f_args f \<noteq> [] \<Longrightarrow> skip_count f = arg_index (f_args f)"
  by (cases "f_args f") (simp_all add: skip_count_def arg_index_def)

lemma key_with_params:
  "args \<noteq> [] \<Longrightarrow> f_args f \<noteq> [] \<Longrightarrow>
   key unicode_of key_base f args =
     join '':'' ([key_base, join ''.'' (name_parts f)] @ map unicode_of (drop (arg_index (f_args f)) args))"
  by (simp add: key_def append_args_map)

lemma join_cons:
  "join sep (x # xs) = x @ concat (map ((@) sep) xs)"
  by (induction xs arbitrary: x) simp_all

lemma takeWhile_sep_free:
  assumes "\<forall>c \<in> set x. c \<noteq> s" and "r = [] \<or> hd r = s"
  shows "takeWhile (\<lambda>c. c \<noteq> s) (x @ r) = x"
proof (cases r)
  case Nil
  with assms show ?thesis by simp
next
  case (Cons c cs)
  with assms have "c = s" by simp
  with Cons assms(1) show ?thesis by (simp add: takeWhile_tail)
qed

lemma concat_sep_head:
  "concat (map ((#) s) xs) = [] \<or> hd (concat (map ((#) s) xs)) = s"
  by (cases xs) simp_all

lemma concat_sep_inj:
  assumes "\<forall>x \<in> set xs. s \<notin> set x" and "\<forall>y \<in> set ys. s \<notin> set y"
    and "concat (map ((#) s) xs) = concat (map ((#) s) ys)"
  shows "xs = ys"
  using assms
proof (induction xs arbitrary: ys)
  case Nil
  then show ?case by (cases ys) simp_all
next
  case (Cons x xs)
  show ?case
  proof (cases ys)
    case Nil
    with Cons.prems show ?thesis by simp
  next
    case (Cons y ys')
    let ?R = "concat (map ((#) s) xs)" and ?R' = "concat (map ((#) s) ys')"
    from Cons Cons.prems(3) have eq: "x @ ?R = y @ ?R'" by simp
    have fx: "\<forall>c \<in> set x. c \<noteq> s" and fy: "\<forall>c \<in> set y. c \<noteq> s"
      using Cons.prems(1,2) Cons by auto
    have "takeWhile (\<lambda>c. c \<noteq> s) (x @ ?R) = x"
      by (rule takeWhile_sep_free [OF fx concat_sep_head])
    moreover have "takeWhile (\<lambda>c. c \<noteq> s) (y @ ?R') = y"
      by (rule takeWhile_sep_free [OF fy concat_sep_head])
    ultimately have xy: "x = y" using eq by simp
    with eq have "?R = ?R'" by simp
    moreover have "\<forall>x \<in> set xs. s \<notin> set x" "\<forall>y \<in> set ys'. s \<notin> set y"
      using Cons.prems(1,2) Cons by auto
    ultimately have "xs = ys'" using Cons.IH by blast
    with xy Cons show ?thesis by simp
  qed
qed

lemma join_colon_inj:
  assumes "\<forall>x \<in> set xs. CHR '':'' \<notin> set x" and "\<forall>y \<in> set ys. CHR '':'' \<notin> set y"
    and "join '':'' (a # b # xs) = join '':'' (a # b # ys)"
  shows "xs = ys"
proof -
  have sep: "(@) '':'' = (#) CHR '':''" by (rule ext) simp
  from assms(3) have "concat (map ((#) CHR '':'') xs) = concat (map ((#) CHR '':'') ys)"
    by (simp add: join_cons sep)
  with assms(1,2) show ?thesis by (rule concat_sep_inj)
qed

text \<open>
  C2 (as amended). The key is a function of the prefix, the function's name data and the
  argument values, so identical inputs give the identical key. For a function that
  declares at least one positional parameter, two argument sequences of the same length
  whose string forms, after the receiver is dropped, differ somewhere get distinct keys,
  provided none of those string forms contains the separator \<open>:\<close>.
\<close>

theorem key_injective_on_string_forms:
  assumes "f_args f \<noteq> []"
    and "length args1 = length args2"
    and "\<forall>a \<in> set (drop (skip_count f) args1). CHR '':'' \<notin> set (unicode_of a)"
    and "\<forall>a \<in> set (drop (skip_count f) args2). CHR '':'' \<notin> set (unicode_of a)"
    and "map unicode_of (drop (skip_count f) args1) \<noteq> map unicode_of (drop (skip_count f) args2)"
  shows "key unicode_of key_base f args1 \<noteq> key unicode_of key_base f args2"
proof
  assume eq: "key unicode_of key_base f args1 = key unicode_of key_base f args2"
  from assms(5) have "args1 \<noteq> [] \<or> args2 \<noteq> []" by auto
  with assms(2) have ne: "args1 \<noteq> []" "args2 \<noteq> []" by auto
  let ?i = "arg_index (f_args f)"
  have i: "skip_count f = ?i" using assms(1) by (rule skip_count_arg_index)
  from eq have "join '':'' (key_base # join ''.'' (name_parts f) # map unicode_of (drop ?i args1))
      = join '':'' (key_base # join ''.'' (name_parts f) # map unicode_of (drop ?i args2))"
    by (simp add: key_with_params [OF ne(1) assms(1)] key_with_params [OF ne(2) assms(1)])
  moreover have "\<forall>x \<in> set (map unicode_of (drop ?i args1)). CHR '':'' \<notin> set x"
    using assms(3) i by simp
  moreover have "\<forall>x \<in> set (map unicode_of (drop ?i args2)). CHR '':'' \<notin> set x"
    using assms(4) i by simp
  ultimately have "map unicode_of (drop ?i args1) = map unicode_of (drop ?i args2)"
    by (rule join_colon_inj [rotated 2])
  with assms(5) i show False by simp
qed

theorem key_injective_on_string_forms_witness:
  "key py_unicode ''cache'' \<lparr>f_name = ''get'', f_args = [''self'', ''x''], f_im_self = Some (IsInstance ''Repo'')\<rparr>
       [PyStr ''r1'', PyStr ''a'']
   \<noteq> key py_unicode ''cache'' \<lparr>f_name = ''get'', f_args = [''self'', ''x''], f_im_self = Some (IsInstance ''Repo'')\<rparr>
       [PyStr ''r1'', PyStr ''b'']"
  by (rule key_injective_on_string_forms) (simp_all add: skip_count_def)

text \<open>
  C2 as stated fails: the arguments enter the key through \<open>unicode\<close>, so the distinct
  argument sequences \<open>(None,)\<close> and \<open>('None',)\<close> of a function \<open>def f(x)\<close> get the same
  key, and no string form contains \<open>:\<close>.
\<close>

theorem key_collision_without_separator:
  "[PyNone] \<noteq> [PyStr ''None'']
   \<and> length [PyNone] = length [PyStr ''None'']
   \<and> CHR '':'' \<notin> set (py_unicode PyNone) \<and> CHR '':'' \<notin> set (py_unicode (PyStr ''None''))
   \<and> key py_unicode ''cache'' \<lparr>f_name = ''f'', f_args = [''x''], f_im_self = None\<rparr> [PyNone]
     = key py_unicode ''cache'' \<lparr>f_name = ''f'', f_args = [''x''], f_im_self = None\<rparr> [PyStr ''None'']"
  by (simp add: key_def name_parts_def arg_index_def)

text \<open>
  C3. For a function that declares at least one positional parameter and a non-empty
  argument tuple, the key is the prefix, the dotted name parts and the string forms of
  \<open>call_args[skip_count:]\<close>, joined with \<open>:\<close>.
\<close>

lemma key_layout_with_params:
  "args \<noteq> [] \<Longrightarrow> f_args f \<noteq> [] \<Longrightarrow>
   key unicode_of key_base f args = spec_key unicode_of key_base f args"
  by (simp add: key_with_params spec_key_def skip_count_arg_index)

text \<open>
  C3 at a function that declares no named positional parameter, \<open>def f(*args)\<close>, called as
  \<open>f('1', '2')\<close>: the guard \<open>len(f_args) > 0\<close> keeps every argument out of the key, where
  the specification (and the docstring's \<open>key_base:func_name:arg1:arg2\<close>) has them in it.
\<close>

theorem key_varargs_function_drops_arguments:
  "key py_unicode ''cache'' \<lparr>f_name = ''f'', f_args = [], f_im_self = None\<rparr> [PyStr ''1'', PyStr ''2'']
     = ''cache:f''
   \<and> spec_key py_unicode ''cache'' \<lparr>f_name = ''f'', f_args = [], f_im_self = None\<rparr> [PyStr ''1'', PyStr ''2'']
     = ''cache:f:1:2''"
  by (simp add: key_def spec_key_def name_parts_def skip_count_def)

section \<open>Properties of the decorator\<close>

lemmas demo_defs = echo_manager_def fresh_def find_nothing_def find_title_def
lemmas run_defs = cache_def wrapper_def miss_path_def store_result_def lookup_data_def
  connection_def load_def save_def expire_def call_def emit_def
  store_get_def store_set_def store_expire_def lookup_def without_def
  key_def name_parts_def arg_index_def invocations_def Let_def


lemma store_emit [simp]: "store (emit ev s) = store s"
  and app_emit [simp]: "app (emit ev s) = app s"
  and trace_emit [simp]: "trace (emit ev s) = trace s @ [ev]"
  by (simp_all add: emit_def)





lemma save_trace: "trace (snd (save k d s)) = trace s @ [Save k d]"
  by (simp add: save_def split: sum.splits)

lemma expire_trace: "trace (snd (expire k t s)) = trace s @ [Expire k t]"
  by (simp add: expire_def split: sum.splits)

lemma store_result_trace:
  "\<exists>ws. trace (snd (store_result m ttl k data args kwargs s)) = trace s @ ws
        \<and> filter (is_invoke n) ws = []"
proof -
  have sv: "\<And>d r s1. save k d s = (r, s1) \<Longrightarrow> trace s1 = trace s @ [Save k d]"
    using save_trace by (metis snd_conv)
  have ex: "\<And>t s1 r s2. expire k t s1 = (r, s2) \<Longrightarrow> trace s2 = trace s1 @ [Expire k t]"
    using expire_trace by (metis snd_conv)
  show ?thesis
    by (auto simp: store_result_def dest!: sv ex split: option.splits sum.splits prod.splits)
qed

lemma miss_path_trace:
  "\<exists>ws. trace (snd (miss_path m ttl f k args kwargs s))
          = trace s @ Invoke (f_name (info f)) args kwargs # ws
        \<and> filter (is_invoke n) ws = []"
proof (cases "body f args kwargs (app s)")
  case (Pair r u)
  let ?s1 = "(emit (Invoke (f_name (info f)) args kwargs) s)\<lparr>app := u\<rparr>"
  have c: "call f args kwargs s = (r, ?s1)" using Pair by (simp add: call_def)
  show ?thesis
  proof (cases r)
    case (Inl e)
    with c show ?thesis by (simp add: miss_path_def)
  next
    case (Inr d)
    from store_result_trace [of m ttl k d args kwargs ?s1 n] obtain ws where
      "trace (snd (store_result m ttl k d args kwargs ?s1)) = trace ?s1 @ ws"
      "filter (is_invoke n) ws = []" by blast
    with c Inr show ?thesis by (simp add: miss_path_def)
  qed
qed

lemma miss_path_invocations:
  "invocations (f_name (info f))
     (drop (length (trace s)) (trace (snd (miss_path m ttl f k args kwargs s)))) = 1"
  using miss_path_trace [of m ttl f k args kwargs s "f_name (info f)"]
  by (auto simp: invocations_def)

lemma wrapper_miss:
  assumes "fst (lookup_data m (key unicode_of (cm_key_base m) (info f) args) s) = Inr data"
    and "data = None \<or> data = Some []"
  shows "wrapper unicode_of m ttl f args kwargs s
           = miss_path m ttl f (key unicode_of (cm_key_base m) (info f) args) args kwargs
               (snd (lookup_data m (key unicode_of (cm_key_base m) (info f) args) s))"
proof (cases "lookup_data m (key unicode_of (cm_key_base m) (info f) args) s")
  case (Pair r s1)
  with assms show ?thesis by (auto simp: wrapper_def)
qed

lemma wrapper_hit:
  assumes "fst (lookup_data m (key unicode_of (cm_key_base m) (info f) args) s) = Inr (Some d)"
    and "d \<noteq> []"
  shows "wrapper unicode_of m ttl f args kwargs s
           = (after_load m d args kwargs,
              snd (lookup_data m (key unicode_of (cm_key_base m) (info f) args) s))"
proof (cases "lookup_data m (key unicode_of (cm_key_base m) (info f) args) s")
  case (Pair r s1)
  with assms show ?thesis by (auto simp: wrapper_def)
qed





lemma get_after_set:
  "store_set k d t st = Inr st' \<Longrightarrow> store_get k st' = Inr (Some d)"
  by (auto simp: store_set_def store_get_def lookup_def split: if_splits)

lemma map_of_expire:
  "map_option fst (map_of (map (\<lambda>(k', d, t'). if k' = k then (k', d, Some t) else (k', d, t')) es) q)
     = map_option fst (map_of es q)"
proof (induction es)
  case Nil
  show ?case by simp
next
  case (Cons e es)
  obtain k' d t' where e: "e = (k', d, t')" by (cases e)
  with Cons show ?case by simp
qed

lemma get_after_expire:
  "store_expire k t st = Inr st' \<Longrightarrow> store_get k' st' = store_get k' st"
  by (auto simp: store_expire_def store_get_def lookup_def map_of_expire split: if_splits)

lemma save_Inr:
  "save k d s = (Inr x, s1) \<Longrightarrow> store_get k (store s1) = Inr (Some d)"
  by (auto simp: save_def dest: get_after_set split: sum.splits)

lemma expire_Inr:
  "expire k t s = (Inr x, s1) \<Longrightarrow> store_get k' (store s1) = store_get k' (store s)"
  by (auto simp: expire_def dest: get_after_expire split: sum.splits)

lemma store_result_value:
  assumes "store_result m ttl k data args kwargs s = (Inr (Some v), s')" and "connection m"
  shows "data = Some v \<and> (\<exists>cached. before_save m v args kwargs = Inr cached
           \<and> store_get k (store s') = Inr (Some cached))"
  using assms
  by (auto simp: store_result_def dest!: save_Inr expire_Inr [where k' = k]
      split: option.splits sum.splits prod.splits if_splits)

lemma miss_path_value:
  assumes "miss_path m ttl f k args kwargs s = (Inr (Some v), s')" and "connection m"
  shows "\<exists>cached. before_save m v args kwargs = Inr cached
           \<and> store_get k (store s') = Inr (Some cached)"
  using assms
  by (auto simp: miss_path_def dest!: store_result_value split: prod.splits sum.splits)

text \<open>
  C7 (as amended). With a connection, if a decorated call returns a value other than
  \<open>None\<close>, and the saved form of that value (\<open>before_save\<close>) is not empty and loads back
  (\<open>after_load\<close>) to the value, then the same call made again on the state the first one
  left returns the same value, and its only event is the load: the wrapped function is
  invoked zero times.
\<close>

theorem second_call_is_a_hit:
  assumes conn: "connection m"
    and first: "cache unicode_of m f args kwargs s = (Inr (Some v), s')"
    and hooks: "\<forall>cached. before_save m v args kwargs = Inr cached
                  \<longrightarrow> cached \<noteq> [] \<and> after_load m cached args kwargs = Inr (Some v)"
  shows "cache unicode_of m f args kwargs s'
           = (Inr (Some v), emit (Load (key unicode_of (cm_key_base m) (info f) args)) s')
       \<and> invocations (f_name (info f))
           (drop (length (trace s')) (trace (snd (cache unicode_of m f args kwargs s')))) = 0"
proof -
  let ?k = "key unicode_of (cm_key_base m) (info f) args"
  have l1: "lookup_data m ?k s = (store_get ?k (store s), emit (Load ?k) s)"
    using conn by (simp add: lookup_data_def load_def)
  have l2: "lookup_data m ?k s' = (store_get ?k (store s'), emit (Load ?k) s')"
    using conn by (simp add: lookup_data_def load_def)
  have "\<exists>d. store_get ?k (store s') = Inr (Some d) \<and> d \<noteq> []
           \<and> after_load m d args kwargs = Inr (Some v)"
  proof (cases "store_get ?k (store s)")
    case (Inl e)
    with first l1 show ?thesis by (simp add: cache_def wrapper_def)
  next
    case (Inr data)
    show ?thesis
    proof (cases "data = None \<or> data = Some []")
      case True
      have "cache unicode_of m f args kwargs s
              = miss_path m (cm_ttl m) f ?k args kwargs (emit (Load ?k) s)"
        unfolding cache_def using wrapper_miss [of m unicode_of f args s data, OF _ True] l1 Inr
        by simp
      with first have "miss_path m (cm_ttl m) f ?k args kwargs (emit (Load ?k) s) = (Inr (Some v), s')"
        by simp
      from miss_path_value [OF this conn] hooks show ?thesis by auto
    next
      case False
      then obtain d where d: "data = Some d" "d \<noteq> []" by (cases data) auto
      have "cache unicode_of m f args kwargs s = (after_load m d args kwargs, emit (Load ?k) s)"
        unfolding cache_def using wrapper_hit [of m unicode_of f args s d, OF _ d(2)] l1 Inr d(1)
        by simp
      with first have "after_load m d args kwargs = Inr (Some v)" "s' = emit (Load ?k) s" by simp_all
      with Inr d show ?thesis by simp
    qed
  qed
  then obtain d where d: "store_get ?k (store s') = Inr (Some d)" "d \<noteq> []"
    "after_load m d args kwargs = Inr (Some v)" by blast
  have "cache unicode_of m f args kwargs s' = (Inr (Some v), emit (Load ?k) s')"
    unfolding cache_def using wrapper_hit [of m unicode_of f args s' d, OF _ d(2)] l2 d(1,3)
    by simp
  then show ?thesis by (simp add: invocations_def)
qed


theorem second_call_is_a_hit_witness:
  "cache py_unicode echo_manager find_title [PyStr ''a''] []
     (snd (cache py_unicode echo_manager find_title [PyStr ''a''] [] fresh))
   = (Inr (Some ''Dune''),
      emit (Load ''cache:title:a'') (snd (cache py_unicode echo_manager find_title [PyStr ''a''] [] fresh)))"
  using second_call_is_a_hit [where m = echo_manager and unicode_of = py_unicode
      and f = find_title and args = "[PyStr ''a'']" and kwargs = "[]" and s = fresh
      and v = "''Dune''" and s' = "snd (cache py_unicode echo_manager find_title [PyStr ''a''] [] fresh)"]
  by (simp add: demo_defs run_defs)


text \<open>
  C7 as stated fails for a function that returns \<open>None\<close>: the result is not cached
  (the docstring: "If the function returns None then it won't be cached"), the store is
  the same after the first call, and the second call invokes the function again.
\<close>

theorem none_result_breaks_second_call_hit:
  "fst (cache py_unicode echo_manager find_nothing [PyStr ''b''] [] fresh) = Inr None
   \<and> fst (cache py_unicode echo_manager find_nothing [PyStr ''b''] []
           (snd (cache py_unicode echo_manager find_nothing [PyStr ''b''] [] fresh))) = Inr None
   \<and> store (snd (cache py_unicode echo_manager find_nothing [PyStr ''b''] [] fresh)) = store fresh
   \<and> invocations ''find''
        (drop (length (trace (snd (cache py_unicode echo_manager find_nothing [PyStr ''b''] [] fresh))))
           (trace (snd (cache py_unicode echo_manager find_nothing [PyStr ''b''] []
                    (snd (cache py_unicode echo_manager find_nothing [PyStr ''b''] [] fresh)))))) = 1"
  by (simp add: demo_defs run_defs)

end
